theory Spec2Isabelle
  imports Complex_Main
begin

section \<open>Numbers, clock and JavaScript values\<close>

text \<open>
  The program is JavaScript. Its numbers are IEEE doubles; the model takes the finite
  ones as exact reals, so \<open>NaN\<close>, the infinities and the rounding error of each
  arithmetic operation are outside the model. \<open>Math.round\<close> rounds to the nearest
  integer with ties towards plus infinity, which is \<open>round\<close> of HOL
  (\<open>round x = \<lfloor>x + 1/2\<rfloor>\<close>). \<open>Date.now()\<close> is an input of every operation that
  reads the clock (milliseconds, an integer). Console output is not modelled.
\<close>

datatype js_val = JUndefined | JNull | JBool bool | JNum real | JStr string

text \<open>\<open>typeof v !== 'number'\<close>\<close>

fun notNumber :: "js_val \<Rightarrow> bool" where
  "notNumber (JNum _) = False"
| "notNumber _ = True"

section \<open>The brake model (Backend/models/brakeModel.js)\<close>

text \<open>One record for the object built from \<open>brakeSchema\<close>: the nine keys of the schema.\<close>

record brake_data =
  "value" :: real
  percentage :: real
  force :: real
  active :: bool
  rawReading :: real
  maxForce :: real
  deadZone :: real
  timestamp :: int
  sensorType :: string

text \<open>
  \<open>createBrakeData(initialData)\<close> fills in the schema defaults and then copies the own
  properties of \<open>initialData\<close> over them with \<open>Object.assign\<close>. The properties of
  \<open>initialData\<close> are a list of field assignments, applied in order.
\<close>

datatype brake_field =
    FValue real | FPercentage real | FForce real | FActive bool | FRawReading real
  | FMaxForce real | FDeadZone real | FTimestamp int | FSensorType string

fun assignField :: "brake_field \<Rightarrow> brake_data \<Rightarrow> brake_data" where
  "assignField (FValue v) d = d\<lparr>value := v\<rparr>"
| "assignField (FPercentage v) d = d\<lparr>percentage := v\<rparr>"
| "assignField (FForce v) d = d\<lparr>force := v\<rparr>"
| "assignField (FActive v) d = d\<lparr>active := v\<rparr>"
| "assignField (FRawReading v) d = d\<lparr>rawReading := v\<rparr>"
| "assignField (FMaxForce v) d = d\<lparr>maxForce := v\<rparr>"
| "assignField (FDeadZone v) d = d\<lparr>deadZone := v\<rparr>"
| "assignField (FTimestamp v) d = d\<lparr>timestamp := v\<rparr>"
| "assignField (FSensorType v) d = d\<lparr>sensorType := v\<rparr>"

definition schemaDefaults :: "int \<Rightarrow> brake_data" where
  "schemaDefaults now =
     \<lparr>value = 0, percentage = 0, force = 0, active = False, rawReading = 0,
      maxForce = 5, deadZone = 1, timestamp = now, sensorType = ''HX711''\<rparr>"

definition createBrakeData :: "int \<Rightarrow> brake_field list \<Rightarrow> brake_data" where
  "createBrakeData now initialData = fold assignField initialData (schemaDefaults now)"

text \<open>
  \<open>updateBrakeData(currentData, newReading)\<close>: the copy of the current data with the
  reading converted to a force, the dead zone applied, the force limited to \<open>maxForce\<close>,
  and value and percentage computed from it.
\<close>

definition updateBrakeData :: "int \<Rightarrow> brake_data \<Rightarrow> real \<Rightarrow> brake_data" where
  "updateBrakeData now currentData newReading =
     (let updatedData = currentData\<lparr>rawReading := newReading\<rparr>;
          calculatedForce = \<bar>newReading / 1000000\<bar>;
          updatedData =
            (if calculatedForce < deadZone updatedData
             then updatedData\<lparr>force := 0, active := False\<rparr>
             else updatedData\<lparr>force := calculatedForce - deadZone updatedData,
                                active := True\<rparr>);
          updatedData = updatedData\<lparr>force := min (force updatedData) (maxForce updatedData)\<rparr>;
          updatedData =
            (if force updatedData > 0
             then updatedData\<lparr>value :=
                    of_int (round ((force updatedData / maxForce updatedData) * 1023))\<rparr>
             else updatedData\<lparr>value := 0\<rparr>);
          updatedData = updatedData\<lparr>percentage :=
                          of_int (round ((value updatedData / 1023) * 100))\<rparr>
      in updatedData\<lparr>timestamp := now\<rparr>)"

text \<open>
  \<open>parseFloat(x.toFixed(2))\<close>. \<open>toFixed(2)\<close> works on the magnitude of a negative
  \<open>x\<close> and puts the sign back. It prints a magnitude of \<open>10^21\<close> or more as
  \<open>ToString\<close> does (which \<open>parseFloat\<close> reads back as the same number), and otherwise
  takes the integer \<open>n\<close> with \<open>n / 100\<close> nearest to the magnitude, the larger one of
  two; \<open>parseFloat\<close> reads that decimal back.
\<close>

definition toFixed2 :: "real \<Rightarrow> real" where
  "toFixed2 x =
     (if \<bar>x\<bar> \<ge> 10 ^ 21 then x
      else if x < 0 then - (of_int \<lfloor>(- x) * 100 + 1 / 2\<rfloor> / 100)
      else of_int \<lfloor>x * 100 + 1 / 2\<rfloor> / 100)"

text \<open>
  An object literal that is sent to a client is the list of its keys and values, in the
  order of the literal.
\<close>

type_synonym js_object = "(string \<times> js_val) list"

definition getBrakeTelemetryData :: "brake_data \<Rightarrow> js_object" where
  "getBrakeTelemetryData data =
     [(''value'', JNum (value data)),
      (''percentage'', JNum (percentage data)),
      (''force'', JNum (toFixed2 (force data))),
      (''active'', JBool (active data)),
      (''timestamp'', JNum (of_int (timestamp data)))]"

section \<open>The serial connection (Backend/services/serialConnection.js)\<close>

subsection \<open>Lines and the four patterns\<close>

text \<open>
  A JavaScript string is the list of its UTF-16 code units; \<open>units\<close> turns a literal of
  the theory into one. The patterns have no \<open>u\<close> flag, so they work on code units:
  \<open>\d\<close> is an ASCII digit and \<open>\s\<close> is the white space and the line terminators of
  ECMAScript.
\<close>

type_synonym js_string = "nat list"

definition units :: "string \<Rightarrow> js_string" where
  "units s = map of_char s"

definition isDigit :: "nat \<Rightarrow> bool" where
  "isDigit u \<longleftrightarrow> 48 \<le> u \<and> u \<le> 57"

definition isSpace :: "nat \<Rightarrow> bool" where
  "isSpace u \<longleftrightarrow>
     u \<in> set [9, 10, 11, 12, 13, 32, 160, 5760, 8232, 8233, 8239, 8287, 12288, 65279]
     \<or> (8192 \<le> u \<and> u \<le> 8202)"

text \<open>\<open>String.prototype.trim\<close> removes the same characters at both ends.\<close>

definition trim :: "js_string \<Rightarrow> js_string" where
  "trim s = rev (dropWhile isSpace (rev (dropWhile isSpace s)))"

text \<open>A literal of a pattern at the head of the input: the rest of the input, or no match.\<close>

fun literal :: "js_string \<Rightarrow> js_string \<Rightarrow> js_string option" where
  "literal [] s = Some s"
| "literal (p # ps) [] = None"
| "literal (p # ps) (c # cs) = (if p = c then literal ps cs else None)"

text \<open>
  \<open>/LABEL\s*(\d+)\/1023\s*\((\d+)%\)/\<close> tried at the head of the input, giving the two
  captured digit strings. \<open>\s*\<close> and \<open>\d+\<close> are greedy, and taking the longest run is
  the only way to match: what follows \<open>\s*\<close> is a digit or a parenthesis, what follows
  \<open>\d+\<close> is a slash or a percent sign, so a shorter run leaves a character that the next
  item of the pattern rejects.
\<close>

definition matchPedalHere :: "js_string \<Rightarrow> js_string \<Rightarrow> (js_string \<times> js_string) option" where
  "matchPedalHere label s =
     (case literal label s of None \<Rightarrow> None | Some r1 \<Rightarrow>
        let r2 = dropWhile isSpace r1;
            d1 = takeWhile isDigit r2;
            r3 = dropWhile isDigit r2
        in if d1 = [] then None else
           (case literal (units ''/1023'') r3 of None \<Rightarrow> None | Some r4 \<Rightarrow>
              (case literal (units ''('') (dropWhile isSpace r4) of None \<Rightarrow> None | Some r5 \<Rightarrow>
                 let d2 = takeWhile isDigit r5;
                     r6 = dropWhile isDigit r5
                 in if d2 = [] then None else
                    (case literal (units ''%)'') r6 of None \<Rightarrow> None
                     | Some r7 \<Rightarrow> Some (d1, d2)))))"

text \<open>\<open>String.prototype.match\<close> without the \<open>g\<close> flag: the leftmost position that matches.\<close>

fun matchPedal :: "js_string \<Rightarrow> js_string \<Rightarrow> (js_string \<times> js_string) option" where
  "matchPedal label [] = matchPedalHere label []"
| "matchPedal label (c # cs) =
     (case matchPedalHere label (c # cs) of
        Some m \<Rightarrow> Some m
      | None \<Rightarrow> matchPedal label cs)"

definition statusTokens :: "js_string list" where
  "statusTokens = [units ''ACELERANDO'', units ''FRENANDO'', units ''EMBRAGUE'', units ''LIBERADOS'']"

text \<open>
  \<open>/(ACELERANDO|FRENANDO|EMBRAGUE|LIBERADOS)$/\<close>: at a position, the first alternative
  that is followed by the end of the input (\<open>$\<close> without the \<open>m\<close> flag), so the first
  token equal to the rest of the input; then the leftmost such position.
\<close>

fun matchStatus :: "js_string \<Rightarrow> js_string option" where
  "matchStatus [] = find (\<lambda>tok. tok = []) statusTokens"
| "matchStatus (c # cs) =
     (case find (\<lambda>tok. tok = c # cs) statusTokens of
        Some tok \<Rightarrow> Some tok
      | None \<Rightarrow> matchStatus cs)"

text \<open>
  \<open>parseInt\<close> of a captured run of digits. The model gives the exact number; the
  program's double is that number up to \<open>2^53\<close>.
\<close>

definition parseInt :: "js_string \<Rightarrow> real" where
  "parseInt ds = of_nat (foldl (\<lambda>a u. 10 * a + (u - 48)) 0 ds)"

subsection \<open>The connection object\<close>

record pedal =
  ch_value :: real
  ch_percentage :: real
  ch_active :: bool

record pedal_data =
  throttle :: pedal
  brake :: pedal
  clutch :: pedal
  status :: js_string
  pd_timestamp :: int
  rawData :: "js_string option"

text \<open>
  The \<open>SerialPort\<close> object the connection holds: the path and baud rate it was made
  with, and whether it is open.
\<close>

record serial_port =
  path :: string
  baudRate :: nat
  isOpen :: bool

text \<open>
  The fields of \<open>ArduinoSerialConnection\<close>; \<open>dataCallback\<close> is kept as whether it is
  set. \<open>parser\<close> is the line splitter of \<open>port\<close> and has no state of its own here.
\<close>

record connection =
  port :: "serial_port option"
  isConnected :: bool
  currentData :: pedal_data
  dataCallback :: bool
  connectionAttempts :: nat
  maxRetries :: nat

definition newConnection :: "int \<Rightarrow> connection" where
  "newConnection now =
     \<lparr>port = None, isConnected = False,
      currentData =
        \<lparr>throttle = \<lparr>ch_value = 0, ch_percentage = 0, ch_active = False\<rparr>,
         brake = \<lparr>ch_value = 0, ch_percentage = 0, ch_active = False\<rparr>,
         clutch = \<lparr>ch_value = 0, ch_percentage = 0, ch_active = False\<rparr>,
         status = units ''LIBERADOS'', pd_timestamp = now, rawData = None\<rparr>,
      dataCallback = False, connectionAttempts = 0, maxRetries = 5\<rparr>"

definition onDataReceived :: "connection \<Rightarrow> connection" where
  "onDataReceived a = a\<lparr>dataCallback := True\<rparr>"

text \<open>\<open>this.port && this.port.isOpen\<close>\<close>

definition portIsOpen :: "connection \<Rightarrow> bool" where
  "portIsOpen a = (case port a of None \<Rightarrow> False | Some p \<Rightarrow> isOpen p)"

definition isPortConnected :: "connection \<Rightarrow> bool" where
  "isPortConnected a \<longleftrightarrow> isConnected a \<and> portIsOpen a"

subsection \<open>Parsing a line\<close>

text \<open>
  \<open>createBar(percentage)\<close> of \<open>displayPedalData\<close> calls \<open>String.prototype.repeat\<close> twice,
  which throws a \<open>RangeError\<close> on a negative count (and on a count too large for a
  string, which then makes the second count negative).
\<close>

definition createBarThrows :: "real \<Rightarrow> bool" where
  "createBarThrows pct =
     (let filled = round ((pct / 100) * 20)
      in filled < 0 \<or> 20 - filled < 0)"

text \<open>
  \<open>displayPedalData\<close> writes to the terminal; the bars are drawn only when
  \<open>Date.now() % 3000 < 100\<close>. What matters to the caller is whether it throws.
\<close>

definition displayPedalDataThrows :: "int \<Rightarrow> pedal_data \<Rightarrow> bool" where
  "displayPedalDataThrows now d \<longleftrightarrow>
     now mod 3000 < 100 \<and>
     (createBarThrows (ch_percentage (throttle d)) \<or>
      createBarThrows (ch_percentage (brake d)) \<or>
      createBarThrows (ch_percentage (clutch d)))"

definition mkPedal :: "js_string \<times> js_string \<Rightarrow> pedal" where
  "mkPedal m =
     \<lparr>ch_value = parseInt (fst m), ch_percentage = parseInt (snd m),
      ch_active = (parseInt (snd m) > 0)\<rparr>"

text \<open>
  \<open>parseArduinoData(rawData)\<close>. The result is the connection afterwards and the data
  handed to \<open>dataCallback\<close>, if the callback was called. \<open>tParse\<close> is the clock at the
  assignment, \<open>tDisplay\<close> the clock in \<open>displayPedalData\<close>; an exception of
  \<open>displayPedalData\<close> is caught by the method and skips the callback.
\<close>

definition parseArduinoData ::
  "int \<Rightarrow> int \<Rightarrow> js_string \<Rightarrow> connection \<Rightarrow> connection \<times> pedal_data option" where
  "parseArduinoData tParse tDisplay raw a =
     (case (matchPedal (units ''Acel:'') raw, matchPedal (units ''Freno:'') raw,
            matchPedal (units ''Clutch:'') raw, matchStatus raw) of
        (Some throttleMatch, Some brakeMatch, Some clutchMatch, Some statusMatch) \<Rightarrow>
          let a1 = a\<lparr>currentData :=
                     \<lparr>throttle = mkPedal throttleMatch, brake = mkPedal brakeMatch,
                      clutch = mkPedal clutchMatch, status = statusMatch,
                      pd_timestamp = tParse, rawData = Some raw\<rparr>\<rparr>
          in if displayPedalDataThrows tDisplay (currentData a1) then (a1, None)
             else if dataCallback a1 then (a1, Some (currentData a1))
             else (a1, None)
      | _ \<Rightarrow> (a, None))"

subsection \<open>Connecting, reconnecting and disconnecting\<close>

text \<open>
  The timers that \<open>attemptReconnection\<close> sets with \<open>setTimeout\<close> belong to the event
  loop, not to the object, and the program keeps no handle on them: the world is the
  connection together with the number of retries that are scheduled and have not fired.
\<close>

record world =
  conn :: connection
  pendingRetries :: nat

definition attemptReconnection :: "world \<Rightarrow> world" where
  "attemptReconnection w =
     (if connectionAttempts (conn w) < maxRetries (conn w)
      then w\<lparr>conn := (conn w)\<lparr>connectionAttempts := connectionAttempts (conn w) + 1\<rparr>,
             pendingRetries := pendingRetries w + 1\<rparr>
      else w)"

text \<open>
  What \<open>connect\<close> gets from outside the program: the value that
  \<open>selectPortInteractively\<close> resolves to (\<open>null\<close>, or a string: \<open>'SIMULATION_MODE'\<close> or
  the path of the port the user picked), the paths of the ports that \<open>findArduinoPorts\<close>
  returns, and whether constructing the \<open>SerialPort\<close> throws.
\<close>

record environment =
  selection :: "string option"
  foundPorts :: "string list"
  constructorThrows :: bool

text \<open>\<open>!targetPort\<close>: \<open>null\<close> and the empty string are falsy.\<close>

definition falsy :: "string option \<Rightarrow> bool" where
  "falsy p \<longleftrightarrow> p = None \<or> p = Some []"

text \<open>
  \<open>connect(portPath, baudRate, interactive)\<close>, run in one piece with the answers of the
  environment: the result and the world afterwards. A new \<open>SerialPort\<close> is not open
  yet; its \<open>open\<close> event follows. The \<open>catch\<close> of the method clears \<open>isConnected\<close> and
  calls \<open>attemptReconnection\<close>.
\<close>

definition connect ::
  "string option \<Rightarrow> nat \<Rightarrow> bool \<Rightarrow> environment \<Rightarrow> world \<Rightarrow> bool \<times> world" where
  "connect portPath baud interactive env w =
     (if isConnected (conn w) then (False, w)
      else
        (case (if falsy portPath \<and> interactive then
                 (if selection env = Some ''SIMULATION_MODE'' then None
                  else if falsy (selection env) then None
                  else selection env)
               else if falsy portPath then
                 (case foundPorts env of [] \<Rightarrow> None | p # ps \<Rightarrow> Some p)
               else portPath) of
           None \<Rightarrow> (False, w)
         | Some targetPort \<Rightarrow>
             if constructorThrows env
             then (False, attemptReconnection (w\<lparr>conn := (conn w)\<lparr>isConnected := False\<rparr>\<rparr>))
             else (True, w\<lparr>conn := (conn w)\<lparr>port :=
                            Some \<lparr>path = targetPort, baudRate = baud, isOpen = False\<rparr>\<rparr>\<rparr>)))"

definition connectToPort :: "string \<Rightarrow> nat \<Rightarrow> environment \<Rightarrow> world \<Rightarrow> bool \<times> world" where
  "connectToPort portPath baud env w = connect (Some portPath) baud False env w"

text \<open>
  The handlers that \<open>connect\<close> registers on the port, for the events of the port the
  connection holds. With \<open>open\<close> the library has opened the port, with \<open>close\<close> it has
  closed it.
\<close>

definition onOpen :: "world \<Rightarrow> world" where
  "onOpen w =
     w\<lparr>conn := (conn w)\<lparr>port := map_option (\<lambda>p. p\<lparr>isOpen := True\<rparr>) (port (conn w)),
                          isConnected := True, connectionAttempts := 0\<rparr>\<rparr>"

definition onError :: "world \<Rightarrow> world" where
  "onError w = attemptReconnection (w\<lparr>conn := (conn w)\<lparr>isConnected := False\<rparr>\<rparr>)"

definition onClose :: "world \<Rightarrow> world" where
  "onClose w =
     attemptReconnection
       (w\<lparr>conn := (conn w)\<lparr>port := map_option (\<lambda>p. p\<lparr>isOpen := False\<rparr>) (port (conn w)),
                            isConnected := False\<rparr>\<rparr>)"

text \<open>
  \<open>disconnect()\<close>: closes the port if there is one and it is open (from \<open>port.close\<close>
  on, \<open>isOpen\<close> reads false), and clears \<open>isConnected\<close>. The method returns nothing and
  catches every exception, so the world afterwards is all there is to it.
\<close>

definition disconnect :: "world \<Rightarrow> world" where
  "disconnect w =
     (let a = conn w;
          a1 = (if portIsOpen a
                then a\<lparr>port := map_option (\<lambda>p. p\<lparr>isOpen := False\<rparr>) (port a)\<rparr>
                else a)
      in w\<lparr>conn := a1\<lparr>isConnected := False\<rparr>\<rparr>)"

text \<open>A scheduled retry fires: the callback of \<open>setTimeout\<close> calls \<open>this.connect()\<close>.\<close>

definition retryFires :: "environment \<Rightarrow> world \<Rightarrow> world" where
  "retryFires env w =
     (if pendingRetries w = 0 then w
      else snd (connect None 9600 True env (w\<lparr>pendingRetries := pendingRetries w - 1\<rparr>)))"

datatype event =
    PortOpen | PortError | PortClose | Disconnect
  | ConnectToPort string nat environment | RetryFires environment

fun step :: "world \<Rightarrow> event \<Rightarrow> world" where
  "step w PortOpen = onOpen w"
| "step w PortError = onError w"
| "step w PortClose = onClose w"
| "step w Disconnect = disconnect w"
| "step w (ConnectToPort p b env) = snd (connectToPort p b env w)"
| "step w (RetryFires env) = retryFires env w"

definition run :: "world \<Rightarrow> event list \<Rightarrow> world" where
  "run w evs = foldl step w evs"

text \<open>
  A connection that is up on \<open>COM3\<close> with no retry scheduled, and an environment in
  which the user picks \<open>COM4\<close> when asked for a port.
\<close>

definition connectedWorld :: world where
  "connectedWorld =
     \<lparr>conn = (newConnection 0)\<lparr>port := Some \<lparr>path = ''COM3'', baudRate = 9600, isOpen = True\<rparr>,
                                  isConnected := True\<rparr>,
      pendingRetries = 0\<rparr>"

definition userPicksCOM4 :: environment where
  "userPicksCOM4 = \<lparr>selection = Some ''COM4'', foundPorts = [], constructorThrows = False\<rparr>"

section \<open>The controller (Backend/controllers/brakeController.js)\<close>

text \<open>
  The controller with the Arduino connection, with the fields that the methods below
  read or write (the handle \<open>simulationInterval\<close> belongs to the simulation, which is
  not among them). Its methods answer a request with
  \<open>res.status(...).json(...)\<close>; a response is the status and the body. Error bodies are
  told apart by their message, success bodies by their data. The \<open>validation\<close> member of
  a success body (\<open>validateBrakeData\<close> of the stored data, which reads and changes
  nothing) and the \<open>message\<close> member are left out.
\<close>

record full_pedal_data =
  fp_brake :: pedal
  fp_brake_force :: real
  fp_throttle :: pedal
  fp_clutch :: pedal
  fp_status :: js_string
  fp_timestamp :: int

record controller =
  brakeData :: brake_data
  isSimulating :: bool
  lastDisplayedPercentage :: real
  arduino :: connection
  isArduinoConnected :: bool
  fullPedalData :: "full_pedal_data option"

datatype error_message =
    RawReadingNotNumber        \<comment> \<open>rawReading debe ser un numero\<close>
  | ManualUpdateWithArduino    \<comment> \<open>No se pueden hacer actualizaciones manuales con Arduino conectado\<close>
  | UpdateFailed               \<comment> \<open>Error actualizando datos del freno\<close>
  | MaxForceNotPositive        \<comment> \<open>maxForce debe ser un numero positivo\<close>
  | DeadZoneNegative           \<comment> \<open>deadZone debe ser un numero no negativo\<close>
  | MaxForceOutOfRange         \<comment> \<open>maxForce debe ser un numero entre 0.1 y 50 kg\<close>
  | DeadZoneOutOfRange         \<comment> \<open>deadZone debe ser un numero entre 0 y 10 kg\<close>

datatype response_body =
    Failure error_message
  | BrakeUpdated js_object       \<comment> \<open>data.brake\<close>
  | ConfigurationUpdated real real   \<comment> \<open>data.configuration.maxForce, .deadZone\<close>
  | BrakeReset js_object         \<comment> \<open>data.brake\<close>

type_synonym response = "nat \<times> response_body"

text \<open>The members of \<open>req.body\<close> that the handlers read; a missing member is \<open>undefined\<close>.\<close>

record request_body =
  body_rawReading :: js_val
  body_maxForce :: js_val
  body_deadZone :: js_val

fun numberOf :: "js_val \<Rightarrow> real" where
  "numberOf (JNum x) = x"
| "numberOf _ = 0"

text \<open>
  The constructor: default brake data, no simulation yet, a fresh connection with the
  data callback registered. (It then starts \<open>connectToArduino\<close>, which is not part of
  this value.)
\<close>

definition newController :: "int \<Rightarrow> controller" where
  "newController now =
     \<lparr>brakeData = createBrakeData now [], isSimulating = False,
      lastDisplayedPercentage = - 1, arduino = onDataReceived (newConnection now),
      isArduinoConnected = False, fullPedalData = None\<rparr>"

text \<open>
  A controller whose Arduino is connected: the port \<open>COM3\<close> is open, the connection
  is up and the controller's flag is set.
\<close>

definition hardwareController :: controller where
  "hardwareController =
     (newController 0)
       \<lparr>arduino := (onDataReceived (newConnection 0))
                     \<lparr>port := Some \<lparr>path = ''COM3'', baudRate = 9600, isOpen = True\<rparr>,
                      isConnected := True\<rparr>,
        isArduinoConnected := True\<rparr>"

text \<open>
  \<open>processArduinoData(arduinoData)\<close>, the data callback; \<open>t1\<close> and \<open>t2\<close> are its two
  readings of the clock.
\<close>

definition processArduinoData :: "int \<Rightarrow> int \<Rightarrow> pedal_data \<Rightarrow> controller \<Rightarrow> controller" where
  "processArduinoData t1 t2 arduinoData c =
     (let b = brake arduinoData;
          d = (brakeData c)\<lparr>value := ch_value b, percentage := ch_percentage b,
                             active := ch_active b\<rparr>;
          d = d\<lparr>force := (ch_percentage b / 100) * maxForce d\<rparr>;
          d = d\<lparr>rawReading := 8388607 + (force d * 1000000)\<rparr>;
          d = d\<lparr>timestamp := t1\<rparr>
      in c\<lparr>brakeData := d,
           fullPedalData := Some
             \<lparr>fp_brake = b, fp_brake_force = force d, fp_throttle = throttle arduinoData,
              fp_clutch = clutch arduinoData, fp_status = status arduinoData,
              fp_timestamp = t2\<rparr>\<rparr>)"

text \<open>
  A line arrives from the port: the \<open>data\<close> handler of the parser calls
  \<open>parseArduinoData\<close> on the trimmed line, which calls the callback registered by the
  controller.
\<close>

definition receiveLine :: "int \<Rightarrow> int \<Rightarrow> int \<Rightarrow> int \<Rightarrow> js_string \<Rightarrow> controller \<Rightarrow> controller" where
  "receiveLine tParse tDisplay t1 t2 received c =
     (case parseArduinoData tParse tDisplay (trim received) (arduino c) of
        (a, None) \<Rightarrow> c\<lparr>arduino := a\<rparr>
      | (a, Some arduinoData) \<Rightarrow> processArduinoData t1 t2 arduinoData (c\<lparr>arduino := a\<rparr>))"

text \<open>
  \<open>displayBrakePercentage(percentage, force)\<close> prints a bar. It records the percentage
  it shows, and its two calls of \<open>String.prototype.repeat\<close> throw a \<open>RangeError\<close> on a
  negative count: the result says whether it threw, and gives the controller afterwards.
\<close>

definition displayBrakePercentage :: "real \<Rightarrow> real \<Rightarrow> controller \<Rightarrow> bool \<times> controller" where
  "displayBrakePercentage pct frc c =
     (if \<bar>pct - lastDisplayedPercentage c\<bar> < 2 then (False, c)
      else
        (let c1 = c\<lparr>lastDisplayedPercentage := pct\<rparr>;
             barLength = 30;
             filledLength = round ((pct / 100) * barLength);
             emptyLength = barLength - filledLength
         in (filledLength < 0 \<or> emptyLength < 0, c1)))"

text \<open>
  \<open>updateBrake(req, res)\<close>. An exception inside the method is answered by its \<open>catch\<close>
  with status 400.
\<close>

definition updateBrake :: "int \<Rightarrow> request_body \<Rightarrow> controller \<Rightarrow> response \<times> controller" where
  "updateBrake now body c =
     (if notNumber (body_rawReading body) then ((400, Failure RawReadingNotNumber), c)
      else if isArduinoConnected c then ((400, Failure ManualUpdateWithArduino), c)
      else
        (let c1 = c\<lparr>brakeData := updateBrakeData now (brakeData c) (numberOf (body_rawReading body))\<rparr>
         in case displayBrakePercentage (percentage (brakeData c1)) (force (brakeData c1)) c1 of
              (True, c2) \<Rightarrow> ((400, Failure UpdateFailed), c2)
            | (False, c2) \<Rightarrow> ((200, BrakeUpdated (getBrakeTelemetryData (brakeData c2))), c2)))"

text \<open>
  The same method in the controller without the Arduino connection, which has no
  \<open>isArduinoConnected\<close> and does not print.
\<close>

definition updateBrake_simulationOnly ::
  "int \<Rightarrow> request_body \<Rightarrow> controller \<Rightarrow> response \<times> controller" where
  "updateBrake_simulationOnly now body c =
     (if notNumber (body_rawReading body) then ((400, Failure RawReadingNotNumber), c)
      else
        (let c1 = c\<lparr>brakeData := updateBrakeData now (brakeData c) (numberOf (body_rawReading body))\<rparr>
         in ((200, BrakeUpdated (getBrakeTelemetryData (brakeData c1))), c1)))"

text \<open>
  \<open>configureBrake(req, res)\<close>: \<open>maxForce\<close> is checked and stored, then \<open>deadZone\<close> is
  checked and stored, then the timestamp is set. Both controllers have the same code
  (the newer one also prints).
\<close>

definition configureBrake :: "int \<Rightarrow> request_body \<Rightarrow> controller \<Rightarrow> response \<times> controller" where
  "configureBrake now body c =
     (let mf = body_maxForce body; dz = body_deadZone body
      in if mf \<noteq> JUndefined \<and> (notNumber mf \<or> numberOf mf \<le> 0)
         then ((400, Failure MaxForceNotPositive), c)
         else
           (let c1 = (if mf \<noteq> JUndefined
                      then c\<lparr>brakeData := (brakeData c)\<lparr>maxForce := numberOf mf\<rparr>\<rparr> else c)
            in if dz \<noteq> JUndefined \<and> (notNumber dz \<or> numberOf dz < 0)
               then ((400, Failure DeadZoneNegative), c1)
               else
                 (let c2 = (if dz \<noteq> JUndefined
                            then c1\<lparr>brakeData := (brakeData c1)\<lparr>deadZone := numberOf dz\<rparr>\<rparr>
                            else c1);
                      c3 = c2\<lparr>brakeData := (brakeData c2)\<lparr>timestamp := now\<rparr>\<rparr>
                  in ((200, ConfigurationUpdated (maxForce (brakeData c3)) (deadZone (brakeData c3))),
                      c3))))"

text \<open>\<open>resetBrake(req, res)\<close>: new default data that keep the current configuration.\<close>

definition resetBrake :: "int \<Rightarrow> controller \<Rightarrow> response \<times> controller" where
  "resetBrake now c =
     (let currentConfig = [FMaxForce (maxForce (brakeData c)), FDeadZone (deadZone (brakeData c))];
          c1 = c\<lparr>brakeData := createBrakeData now currentConfig\<rparr>
      in ((200, BrakeReset (getBrakeTelemetryData (brakeData c1))), c1))"

text \<open>Several resets in a row, each with its own reading of the clock.\<close>

fun resetTimes :: "int list \<Rightarrow> controller \<Rightarrow> controller" where
  "resetTimes [] c = c"
| "resetTimes (t # ts) c = resetTimes ts (snd (resetBrake t c))"

section \<open>The routes (Backend/routes)\<close>

text \<open>
  An Express router keeps its layers in the order of registration. A request goes to the
  first layer with its method and path; a handler that answers ends the request, a
  middleware that calls \<open>next()\<close> passes it to the next matching layer. Both route files
  register, in this order, \<open>PUT /update\<close>, \<open>PUT /config\<close> with
  \<open>brakeController.configureBrake\<close>, \<open>POST /reset\<close> and, further down,
  \<open>PUT /config\<close> with \<open>validateConfigParams\<close>. The other layers have other paths.
\<close>

datatype http_method = GET | PUT | POST

datatype handler = H_updateBrake | H_configureBrake | H_resetBrake | H_validateConfigParams

datatype outcome = Answered response | CalledNext

text \<open>\<open>validateConfigParams(req, res, next)\<close>\<close>

definition validateConfigParams :: "request_body \<Rightarrow> outcome" where
  "validateConfigParams body =
     (let mf = body_maxForce body; dz = body_deadZone body
      in if mf \<noteq> JUndefined \<and> (notNumber mf \<or> numberOf mf \<le> 0 \<or> numberOf mf > 50)
         then Answered (400, Failure MaxForceOutOfRange)
         else if dz \<noteq> JUndefined \<and> (notNumber dz \<or> numberOf dz < 0 \<or> numberOf dz \<ge> 10)
         then Answered (400, Failure DeadZoneOutOfRange)
         else CalledNext)"

definition brakeRoutes :: "(http_method \<times> string \<times> handler) list" where
  "brakeRoutes =
     [(PUT, ''/update'', H_updateBrake),
      (PUT, ''/config'', H_configureBrake),
      (POST, ''/reset'', H_resetBrake),
      (PUT, ''/config'', H_validateConfigParams)]"

fun runHandler :: "handler \<Rightarrow> int \<Rightarrow> request_body \<Rightarrow> controller \<Rightarrow> outcome \<times> controller" where
  "runHandler H_updateBrake now body c = (case updateBrake now body c of (r, c1) \<Rightarrow> (Answered r, c1))"
| "runHandler H_configureBrake now body c = (case configureBrake now body c of (r, c1) \<Rightarrow> (Answered r, c1))"
| "runHandler H_resetBrake now body c = (case resetBrake now c of (r, c1) \<Rightarrow> (Answered r, c1))"
| "runHandler H_validateConfigParams now body c = (validateConfigParams body, c)"

text \<open>The router at work: no response when no layer answers.\<close>

fun route ::
  "(http_method \<times> string \<times> handler) list \<Rightarrow> http_method \<Rightarrow> string \<Rightarrow> int \<Rightarrow> request_body \<Rightarrow>
   controller \<Rightarrow> response option \<times> controller" where
  "route [] m p now body c = (None, c)"
| "route ((m1, p1, h) # layers) m p now body c =
     (if m1 = m \<and> p1 = p
      then (case runHandler h now body c of
              (Answered r, c1) \<Rightarrow> (Some r, c1)
            | (CalledNext, c1) \<Rightarrow> route layers m p now body c1)
      else route layers m p now body c)"

section \<open>Properties of the calibration step\<close>

lemma round_between:
  fixes x :: real
  assumes "0 \<le> x" and "x \<le> of_int n"
  shows "0 \<le> round x \<and> round x \<le> n"
proof -
  have "round (0::real) \<le> round x" using assms(1) by (rule round_mono)
  moreover have "round x \<le> round (of_int n :: real)" using assms(2) by (rule round_mono)
  ultimately show ?thesis by simp
qed

lemma updateBrakeData_force:
  "force (updateBrakeData now d r) =
     min (if \<bar>r / 1000000\<bar> < deadZone d then 0 else \<bar>r / 1000000\<bar> - deadZone d) (maxForce d)"
  by (simp add: updateBrakeData_def Let_def)

lemma updateBrakeData_value:
  "value (updateBrakeData now d r) =
     (if force (updateBrakeData now d r) > 0
      then of_int (round ((force (updateBrakeData now d r) / maxForce d) * 1023)) else 0)"
  by (auto simp add: updateBrakeData_def Let_def)

lemma updateBrakeData_active:
  "active (updateBrakeData now d r) \<longleftrightarrow> \<not> \<bar>r / 1000000\<bar> < deadZone d"
  by (simp add: updateBrakeData_def Let_def)

lemma updateBrakeData_percentage:
  "percentage (updateBrakeData now d r) =
     of_int (round ((value (updateBrakeData now d r) / 1023) * 100))"
  by (simp add: updateBrakeData_def Let_def)

lemma updateBrakeData_kept:
  "rawReading (updateBrakeData now d r) = r \<and> timestamp (updateBrakeData now d r) = now \<and>
   sensorType (updateBrakeData now d r) = sensorType d"
  by (simp add: updateBrakeData_def Let_def)


lemma updateBrakeData_config:
  "maxForce (updateBrakeData now d r) = maxForce d \<and>
   deadZone (updateBrakeData now d r) = deadZone d"
  by (simp add: updateBrakeData_def Let_def)

lemma updateBrakeData_value_range:
  "0 \<le> value (updateBrakeData now d r) \<and> value (updateBrakeData now d r) \<le> 1023"
proof -
  define f where "f = force (updateBrakeData now d r)"
  have fle: "f \<le> maxForce d"
    by (simp add: f_def updateBrakeData_def Let_def)
  have v: "value (updateBrakeData now d r) =
             (if f > 0 then of_int (round ((f / maxForce d) * 1023)) else 0)"
    by (auto simp add: f_def updateBrakeData_def Let_def)
  show ?thesis
  proof (cases "f > 0")
    case False
    then show ?thesis using v by simp
  next
    case True
    then have m: "0 < maxForce d" using fle by linarith
    define q where "q = f / maxForce d"
    have "0 \<le> q" using True m by (simp add: q_def)
    then have q0: "0 \<le> q * 1023" by simp
    have "q \<le> 1" using fle m by (simp add: q_def)
    then have q1: "q * 1023 \<le> of_int 1023" by simp
    have "0 \<le> round (q * 1023) \<and> round (q * 1023) \<le> 1023"
      using q0 q1 by (rule round_between)
    then have "0 \<le> round ((f / maxForce d) * 1023) \<and> round ((f / maxForce d) * 1023) \<le> 1023"
      by (simp only: q_def)
    then show ?thesis using v True by simp
  qed
qed

lemma updateBrakeData_percentage_range:
  "0 \<le> percentage (updateBrakeData now d r) \<and> percentage (updateBrakeData now d r) \<le> 100"
proof -
  define v where "v = value (updateBrakeData now d r)"
  have p: "percentage (updateBrakeData now d r) = of_int (round ((v / 1023) * 100))"
    by (simp add: v_def updateBrakeData_def Let_def)
  have vr: "0 \<le> v \<and> v \<le> 1023"
    unfolding v_def by (rule updateBrakeData_value_range)
  define q where "q = v / 1023"
  have "0 \<le> q \<and> q \<le> 1" using vr by (simp add: q_def)
  then have q0: "0 \<le> q * 100" and q1: "q * 100 \<le> of_int 100" by simp_all
  have "0 \<le> round (q * 100) \<and> round (q * 100) \<le> 100"
    using q0 q1 by (rule round_between)
  then have "0 \<le> round ((v / 1023) * 100) \<and> round ((v / 1023) * 100) \<le> 100"
    by (simp only: q_def)
  then show ?thesis using p by simp
qed

lemma updateBrakeData_force_range:
  assumes "0 < maxForce d"
  shows "0 \<le> force (updateBrakeData now d r) \<and> force (updateBrakeData now d r) \<le> maxForce d"
  using assms by (simp add: updateBrakeData_def Let_def)

text \<open>
  C1. For every reading and every configuration with \<open>maxForce > 0\<close> and
  \<open>deadZone \<ge> 0\<close>, the snapshot produced by \<open>updateBrakeData\<close> has its force in
  \<open>[0, maxForce]\<close>, its value in \<open>[0, 1023]\<close> and its percentage in \<open>[0, 100]\<close>.
\<close>

theorem updateBrakeData_ranges:
  assumes "0 < maxForce d" and "0 \<le> deadZone d"
  shows "0 \<le> force (updateBrakeData now d r) \<and> force (updateBrakeData now d r) \<le> maxForce d \<and>
         0 \<le> value (updateBrakeData now d r) \<and> value (updateBrakeData now d r) \<le> 1023 \<and>
         0 \<le> percentage (updateBrakeData now d r) \<and> percentage (updateBrakeData now d r) \<le> 100"
  using updateBrakeData_force_range [OF assms(1)] updateBrakeData_value_range
        updateBrakeData_percentage_range
  by blast

theorem updateBrakeData_ranges_witness:
  "0 < maxForce (createBrakeData 0 []) \<and> 0 \<le> deadZone (createBrakeData 0 []) \<and>
   0 \<le> force (updateBrakeData 7 (createBrakeData 0 []) 3000000) \<and>
   force (updateBrakeData 7 (createBrakeData 0 []) 3000000) \<le> maxForce (createBrakeData 0 []) \<and>
   value (updateBrakeData 7 (createBrakeData 0 []) 3000000) = 409 \<and>
   percentage (updateBrakeData 7 (createBrakeData 0 []) 3000000) = 40"
proof -
  have m: "0 < maxForce (createBrakeData 0 [])"
    by (simp add: createBrakeData_def schemaDefaults_def)
  have z: "0 \<le> deadZone (createBrakeData 0 [])"
    by (simp add: createBrakeData_def schemaDefaults_def)
  have v: "value (updateBrakeData 7 (createBrakeData 0 []) 3000000) = 409"
    by (simp add: updateBrakeData_def createBrakeData_def schemaDefaults_def Let_def round_def)
  have p: "percentage (updateBrakeData 7 (createBrakeData 0 []) 3000000) = 40"
    by (simp add: updateBrakeData_def createBrakeData_def schemaDefaults_def Let_def round_def)
  show ?thesis
    using m z v p updateBrakeData_ranges [OF m z, of 7 3000000] by simp
qed

lemma updateBrakeData_force_pos_active:
  "force (updateBrakeData now d r) > 0 \<Longrightarrow> active (updateBrakeData now d r)"
  by (auto simp add: updateBrakeData_def Let_def split: if_splits)

text \<open>
  C2. In every snapshot of \<open>updateBrakeData\<close>, \<open>active\<close> is true if and only if
  \<open>force > 0\<close>, and no input gives \<open>active = true\<close> together with \<open>force = 0\<close>. The
  code decides \<open>active\<close> by the dead-zone test \<open>calculatedForce < deadZone\<close>, not by the
  force: a reading exactly at the dead zone gives force 0 and \<open>active = true\<close>. With the
  default configuration (\<open>deadZone = 1\<close>) the reading \<open>1000000\<close> does, and with
  \<open>deadZone = 0\<close> the reading 0 does.
\<close>

theorem updateBrakeData_active_with_zero_force:
  "active (updateBrakeData 1 (createBrakeData 0 []) 1000000) \<and>
   force (updateBrakeData 1 (createBrakeData 0 []) 1000000) = 0 \<and>
   active (updateBrakeData 1 (createBrakeData 0 [FDeadZone 0]) 0) \<and>
   force (updateBrakeData 1 (createBrakeData 0 [FDeadZone 0]) 0) = 0"
  by (simp add: updateBrakeData_def createBrakeData_def schemaDefaults_def Let_def)

text \<open>
  C2, as the code has it. In every snapshot of \<open>updateBrakeData\<close>, \<open>active\<close> is true if
  and only if the magnitude \<open>|rawReading / 1000000|\<close> is at least \<open>deadZone\<close>. A positive
  force implies \<open>active\<close>. With \<open>maxForce > 0\<close>, a snapshot has \<open>active = true\<close>
  together with \<open>force = 0\<close> exactly when the magnitude equals \<open>deadZone\<close>, and a
  magnitude below \<open>deadZone\<close> gives \<open>force = 0\<close> and \<open>active = false\<close>.
\<close>

theorem updateBrakeData_active_iff:
  "(active (updateBrakeData now d r) \<longleftrightarrow> \<bar>r / 1000000\<bar> \<ge> deadZone d) \<and>
   (force (updateBrakeData now d r) > 0 \<longrightarrow> active (updateBrakeData now d r)) \<and>
   (0 < maxForce d \<longrightarrow>
      (active (updateBrakeData now d r) \<and> force (updateBrakeData now d r) = 0
         \<longleftrightarrow> \<bar>r / 1000000\<bar> = deadZone d)) \<and>
   (0 < maxForce d \<and> \<bar>r / 1000000\<bar> < deadZone d \<longrightarrow>
      force (updateBrakeData now d r) = 0 \<and> \<not> active (updateBrakeData now d r))"
proof -
  define m where "m = \<bar>r / 1000000\<bar>"
  have a: "active (updateBrakeData now d r) \<longleftrightarrow> \<not> m < deadZone d"
    unfolding m_def by (rule updateBrakeData_active)
  have f: "force (updateBrakeData now d r) =
             min (if m < deadZone d then 0 else m - deadZone d) (maxForce d)"
    unfolding m_def by (rule updateBrakeData_force)
  have c1: "active (updateBrakeData now d r) \<longleftrightarrow> m \<ge> deadZone d"
    using a by auto
  have c2: "force (updateBrakeData now d r) > 0 \<longrightarrow> active (updateBrakeData now d r)"
    using a f by (auto simp add: min_def split: if_splits)
  have c3: "0 < maxForce d \<longrightarrow>
      (active (updateBrakeData now d r) \<and> force (updateBrakeData now d r) = 0
         \<longleftrightarrow> m = deadZone d)"
    using a f by (auto simp add: min_def split: if_splits)
  have c4: "0 < maxForce d \<and> m < deadZone d \<longrightarrow>
      force (updateBrakeData now d r) = 0 \<and> \<not> active (updateBrakeData now d r)"
    using a f by (auto simp add: min_def)
  show ?thesis using c1 c2 c3 c4 unfolding m_def by blast
qed

theorem updateBrakeData_active_iff_witness:
  "0 < maxForce (createBrakeData 0 []) \<and>
   force (updateBrakeData 1 (createBrakeData 0 []) 3000000) > 0 \<and>
   active (updateBrakeData 1 (createBrakeData 0 []) 3000000) \<and>
   \<bar>1000000 / 1000000 :: real\<bar> = deadZone (createBrakeData 0 []) \<and>
   active (updateBrakeData 1 (createBrakeData 0 []) 1000000) \<and>
   force (updateBrakeData 1 (createBrakeData 0 []) 1000000) = 0 \<and>
   \<bar>500000 / 1000000 :: real\<bar> < deadZone (createBrakeData 0 []) \<and>
   force (updateBrakeData 1 (createBrakeData 0 []) 500000) = 0 \<and>
   \<not> active (updateBrakeData 1 (createBrakeData 0 []) 500000)"
proof -
  let ?d = "createBrakeData 0 []"
  have m: "0 < maxForce ?d" by (simp add: createBrakeData_def schemaDefaults_def)
  have p: "force (updateBrakeData 1 ?d 3000000) > 0"
    by (simp add: updateBrakeData_def createBrakeData_def schemaDefaults_def Let_def)
  have e: "\<bar>1000000 / 1000000 :: real\<bar> = deadZone ?d"
    by (simp add: createBrakeData_def schemaDefaults_def)
  have l: "\<bar>500000 / 1000000 :: real\<bar> < deadZone ?d"
    by (simp add: createBrakeData_def schemaDefaults_def)
  have a: "active (updateBrakeData 1 ?d 3000000)"
    using p updateBrakeData_active_iff [of 1 ?d 3000000] by blast
  have b: "active (updateBrakeData 1 ?d 1000000) \<and> force (updateBrakeData 1 ?d 1000000) = 0"
    using m e updateBrakeData_active_iff [of 1 ?d 1000000] by blast
  have c: "force (updateBrakeData 1 ?d 500000) = 0 \<and> \<not> active (updateBrakeData 1 ?d 500000)"
    using m l updateBrakeData_active_iff [of 1 ?d 500000] by blast
  show ?thesis using m p e l a b c by blast
qed




section \<open>Properties of the telemetry projection\<close>

lemma toFixed2_hundredths:
  assumes "\<bar>x\<bar> < 10 ^ 21 \<or> x \<in> \<int>"
  shows "\<exists>n::int. toFixed2 x = of_int n / 100"
proof (cases "\<bar>x\<bar> \<ge> 10 ^ 21")
  case True
  then have "x \<in> \<int>" using assms by linarith
  then obtain k :: int where k: "x = of_int k" by (auto elim: Ints_cases)
  have "toFixed2 x = x" using True by (simp add: toFixed2_def)
  then have "toFixed2 x = of_int (k * 100) / 100" using k by simp
  then show ?thesis by blast
next
  case False
  show ?thesis
  proof (cases "x < 0")
    case True
    have "toFixed2 x = of_int (- \<lfloor>(- x) * 100 + 1 / 2\<rfloor>) / 100"
      using False True by (simp add: toFixed2_def)
    then show ?thesis by blast
  next
    case nonneg: False
    have "toFixed2 x = of_int \<lfloor>x * 100 + 1 / 2\<rfloor> / 100"
      using False nonneg by (simp add: toFixed2_def)
    then show ?thesis by blast
  qed
qed

lemma floor_half_close:
  fixes y :: real
  shows "\<bar>of_int \<lfloor>y + 1 / 2\<rfloor> - y\<bar> \<le> 1 / 2"
  by linarith

lemma toFixed2_close: "\<bar>toFixed2 x - x\<bar> \<le> 1 / 200"
proof (cases "\<bar>x\<bar> \<ge> 10 ^ 21")
  case True
  then show ?thesis by (simp add: toFixed2_def)
next
  case False
  show ?thesis
  proof (cases "x < 0")
    case True
    have e: "toFixed2 x = - (of_int \<lfloor>(- x) * 100 + 1 / 2\<rfloor> / 100)"
      using False True by (simp add: toFixed2_def)
    have "\<bar>of_int \<lfloor>(- x) * 100 + 1 / 2\<rfloor> - (- x) * 100\<bar> \<le> 1 / 2" by (rule floor_half_close)
    then show ?thesis unfolding e by linarith
  next
    case nonneg: False
    have e: "toFixed2 x = of_int \<lfloor>x * 100 + 1 / 2\<rfloor> / 100"
      using False nonneg by (simp add: toFixed2_def)
    have "\<bar>of_int \<lfloor>x * 100 + 1 / 2\<rfloor> - x * 100\<bar> \<le> 1 / 2" by (rule floor_half_close)
    then show ?thesis unfolding e by linarith
  qed
qed

text \<open>
  C10. Every snapshot served through \<open>getBrakeTelemetryData\<close> has exactly the keys
  \<open>value\<close>, \<open>percentage\<close>, \<open>force\<close>, \<open>active\<close> and \<open>timestamp\<close>: no \<open>maxForce\<close>, no
  \<open>deadZone\<close>. Value, percentage, active and timestamp are those of the stored data, and
  the force is the stored force rounded to two decimal places: a whole number of
  hundredths, at most half a hundredth away. (A double of magnitude \<open>10^21\<close> or more is
  an integer; for a real number the model needs that said.)
\<close>

theorem getBrakeTelemetryData_projection:
  "map fst (getBrakeTelemetryData d) = [''value'', ''percentage'', ''force'', ''active'', ''timestamp''] \<and>
   map_of (getBrakeTelemetryData d) ''value'' = Some (JNum (value d)) \<and>
   map_of (getBrakeTelemetryData d) ''percentage'' = Some (JNum (percentage d)) \<and>
   map_of (getBrakeTelemetryData d) ''active'' = Some (JBool (active d)) \<and>
   map_of (getBrakeTelemetryData d) ''timestamp'' = Some (JNum (of_int (timestamp d))) \<and>
   map_of (getBrakeTelemetryData d) ''force'' = Some (JNum (toFixed2 (force d))) \<and>
   \<bar>toFixed2 (force d) - force d\<bar> \<le> 1 / 200 \<and>
   (\<bar>force d\<bar> < 10 ^ 21 \<or> force d \<in> \<int> \<longrightarrow> (\<exists>n::int. toFixed2 (force d) = of_int n / 100)) \<and>
   map_of (getBrakeTelemetryData d) ''maxForce'' = None \<and>
   map_of (getBrakeTelemetryData d) ''deadZone'' = None"
  using toFixed2_close [of "force d"] toFixed2_hundredths [of "force d"]
  by (simp add: getBrakeTelemetryData_def)

theorem getBrakeTelemetryData_projection_witness:
  "\<bar>force ((schemaDefaults 0)\<lparr>force := 314159 / 100000\<rparr>)\<bar> < 10 ^ 21 \<and>
   map_of (getBrakeTelemetryData ((schemaDefaults 0)\<lparr>force := 314159 / 100000\<rparr>)) ''force''
     = Some (JNum (314 / 100)) \<and>
   (\<exists>n::int. toFixed2 (force ((schemaDefaults 0)\<lparr>force := 314159 / 100000\<rparr>)) = of_int n / 100)"
proof -
  let ?d = "(schemaDefaults 0)\<lparr>force := 314159 / 100000\<rparr>"
  have h: "\<bar>force ?d\<bar> < 10 ^ 21" by simp
  have v: "toFixed2 (force ?d) = 314 / 100" by (simp add: toFixed2_def)
  show ?thesis
    using h v getBrakeTelemetryData_projection [of ?d] by simp
qed

section \<open>Properties of the controller\<close>

lemma resetBrake_state:
  "snd (resetBrake t c) =
     c\<lparr>brakeData :=
          \<lparr>value = 0, percentage = 0, force = 0, active = False, rawReading = 0,
           maxForce = maxForce (brakeData c), deadZone = deadZone (brakeData c),
           timestamp = t, sensorType = ''HX711''\<rparr>\<rparr>"
  by (simp add: resetBrake_def createBrakeData_def schemaDefaults_def Let_def)

lemma resetTimes_brakeData:
  "brakeData (resetTimes (t # ts) c) =
     \<lparr>value = 0, percentage = 0, force = 0, active = False, rawReading = 0,
      maxForce = maxForce (brakeData c), deadZone = deadZone (brakeData c),
      timestamp = last (t # ts), sensorType = ''HX711''\<rparr>"
proof (induction ts arbitrary: t c)
  case Nil
  show ?case by (simp add: resetBrake_state)
next
  case (Cons u us)
  have "brakeData (resetTimes (t # u # us) c) = brakeData (resetTimes (u # us) (snd (resetBrake t c)))"
    by simp
  also have "\<dots> = \<lparr>value = 0, percentage = 0, force = 0, active = False, rawReading = 0,
      maxForce = maxForce (brakeData (snd (resetBrake t c))),
      deadZone = deadZone (brakeData (snd (resetBrake t c))),
      timestamp = last (u # us), sensorType = ''HX711''\<rparr>"
    by (rule Cons.IH)
  finally show ?case by (simp add: resetBrake_state)
qed

text \<open>
  C6. Reset is idempotent up to the timestamp: a second reset changes nothing but the
  timestamp of the snapshot, and after any number of resets (one or more) the snapshot is
  the default one (\<open>rawReading = 0\<close>, \<open>force = 0\<close>, \<open>value = 0\<close>, \<open>percentage = 0\<close>,
  \<open>active = false\<close>) with the \<open>maxForce\<close> and \<open>deadZone\<close> from before the first
  reset. The response carries the telemetry of that snapshot.
\<close>

theorem resetBrake_idempotent:
  "snd (resetBrake t2 (snd (resetBrake t1 c))) =
     (snd (resetBrake t1 c))\<lparr>brakeData := (brakeData (snd (resetBrake t1 c)))\<lparr>timestamp := t2\<rparr>\<rparr> \<and>
   brakeData (resetTimes (t # ts) c) =
     \<lparr>value = 0, percentage = 0, force = 0, active = False, rawReading = 0,
      maxForce = maxForce (brakeData c), deadZone = deadZone (brakeData c),
      timestamp = last (t # ts), sensorType = ''HX711''\<rparr> \<and>
   fst (resetBrake t1 c) =
     (200, BrakeReset [(''value'', JNum 0), (''percentage'', JNum 0), (''force'', JNum 0),
                       (''active'', JBool False), (''timestamp'', JNum (of_int t1))])"
proof (intro conjI)
  show "snd (resetBrake t2 (snd (resetBrake t1 c))) =
     (snd (resetBrake t1 c))\<lparr>brakeData := (brakeData (snd (resetBrake t1 c)))\<lparr>timestamp := t2\<rparr>\<rparr>"
    by (simp add: resetBrake_state)
  show "brakeData (resetTimes (t # ts) c) =
     \<lparr>value = 0, percentage = 0, force = 0, active = False, rawReading = 0,
      maxForce = maxForce (brakeData c), deadZone = deadZone (brakeData c),
      timestamp = last (t # ts), sensorType = ''HX711''\<rparr>"
    by (rule resetTimes_brakeData)
  show "fst (resetBrake t1 c) =
     (200, BrakeReset [(''value'', JNum 0), (''percentage'', JNum 0), (''force'', JNum 0),
                       (''active'', JBool False), (''timestamp'', JNum (of_int t1))])"
    by (simp add: resetBrake_def createBrakeData_def schemaDefaults_def Let_def
        getBrakeTelemetryData_def toFixed2_def)
qed

lemma displayBrakePercentage_no_throw:
  assumes "0 \<le> p" and "p \<le> 100"
  shows "fst (displayBrakePercentage p f c) = False"
proof -
  define q where "q = p / 100"
  have "0 \<le> q \<and> q \<le> 1" using assms by (simp add: q_def)
  then have q0: "0 \<le> q * 30" and q1: "q * 30 \<le> of_int 30" by simp_all
  have "0 \<le> round (q * 30) \<and> round (q * 30) \<le> 30"
    using q0 q1 by (rule round_between)
  then have "0 \<le> round ((p / 100) * 30) \<and> round ((p / 100) * 30) \<le> 30"
    by (simp only: q_def)
  then show ?thesis by (simp add: displayBrakePercentage_def Let_def)
qed

lemma displayBrakePercentage_brakeData:
  "brakeData (snd (displayBrakePercentage p f c)) = brakeData c"
  by (simp add: displayBrakePercentage_def Let_def)

lemma updateBrake_accepts:
  assumes "\<not> isArduinoConnected c" and "body_rawReading body = JNum r"
  shows "fst (updateBrake now body c) =
           (200, BrakeUpdated (getBrakeTelemetryData (updateBrakeData now (brakeData c) r))) \<and>
         brakeData (snd (updateBrake now body c)) = updateBrakeData now (brakeData c) r"
proof -
  define c1 where "c1 = c\<lparr>brakeData := updateBrakeData now (brakeData c) r\<rparr>"
  define res where "res = displayBrakePercentage (percentage (brakeData c1)) (force (brakeData c1)) c1"
  have pr: "0 \<le> percentage (brakeData c1) \<and> percentage (brakeData c1) \<le> 100"
    using updateBrakeData_percentage_range [of now "brakeData c" r] by (simp add: c1_def)
  have nt: "fst res = False"
    unfolding res_def using pr by (intro displayBrakePercentage_no_throw) simp_all
  have bd: "brakeData (snd res) = updateBrakeData now (brakeData c) r"
    unfolding res_def by (simp add: displayBrakePercentage_brakeData c1_def)
  have u: "updateBrake now body c =
             (case res of (True, c2) \<Rightarrow> ((400, Failure UpdateFailed), c2)
                        | (False, c2) \<Rightarrow> ((200, BrakeUpdated (getBrakeTelemetryData (brakeData c2))), c2))"
    using assms by (simp add: updateBrake_def Let_def res_def c1_def)
  obtain b c2 where r: "res = (b, c2)" by (cases res)
  with nt have b: "b = False" by simp
  show ?thesis using u r b bd by simp
qed

lemma updateBrakeData_recomputed:
  "(let u = updateBrakeData now d r; m = \<bar>r / 1000000\<bar>
    in rawReading u = r \<and> timestamp u = now \<and> maxForce u = maxForce d \<and>
       deadZone u = deadZone d \<and> sensorType u = sensorType d \<and>
       (active u \<longleftrightarrow> m \<ge> deadZone d) \<and>
       force u = min (if m < deadZone d then 0 else m - deadZone d) (maxForce d) \<and>
       value u = (if force u > 0 then of_int (round ((force u / maxForce d) * 1023)) else 0) \<and>
       percentage u = of_int (round ((value u / 1023) * 100)))"
  unfolding Let_def
  using updateBrakeData_kept [of now d r] updateBrakeData_config [of now d r]
    updateBrakeData_active [of now d r] updateBrakeData_force [of now d r]
    updateBrakeData_value [of now d r] updateBrakeData_percentage [of now d r]
  by (simp add: not_less)

lemma updateBrake_other_fields:
  "isArduinoConnected (snd (updateBrake now body c)) = isArduinoConnected c \<and>
   arduino (snd (updateBrake now body c)) = arduino c \<and>
   isSimulating (snd (updateBrake now body c)) = isSimulating c \<and>
   fullPedalData (snd (updateBrake now body c)) = fullPedalData c"
  by (simp add: updateBrake_def displayBrakePercentage_def Let_def split: prod.splits bool.splits)

text \<open>
  C7. While the Arduino is connected (the controller's \<open>isArduinoConnected\<close>),
  \<open>updateBrake\<close> answers with status 400 and leaves the controller as it was, and a
  numeric \<open>rawReading\<close> gets the message of the conflict (a \<open>rawReading\<close> that is not a
  number gets the message of the type check, which comes first). While it is not
  connected, a numeric \<open>rawReading\<close> is accepted with status 200 and the snapshot is
  recomputed from it: the stored data are \<open>updateBrakeData\<close> of it, that is, they keep
  the configuration, hold the reading and the time of the request, and have \<open>active\<close>,
  force, value and percentage computed from the reading as written out below; the rest
  of the controller is as it was, and the response carries the telemetry of the stored
  data. The controller without the Arduino connection has no hardware source and does
  the same for every numeric \<open>rawReading\<close>.
\<close>

theorem updateBrake_conflict:
  "(isArduinoConnected c \<longrightarrow>
      snd (updateBrake now body c) = c \<and> fst (fst (updateBrake now body c)) = 400 \<and>
      (\<not> notNumber (body_rawReading body) \<longrightarrow>
         fst (updateBrake now body c) = (400, Failure ManualUpdateWithArduino))) \<and>
   (\<not> isArduinoConnected c \<and> body_rawReading body = JNum r \<longrightarrow>
      fst (updateBrake now body c) =
        (200, BrakeUpdated (getBrakeTelemetryData (updateBrakeData now (brakeData c) r))) \<and>
      brakeData (snd (updateBrake now body c)) = updateBrakeData now (brakeData c) r \<and>
      (let u = brakeData (snd (updateBrake now body c)); d = brakeData c; m = \<bar>r / 1000000\<bar>
       in rawReading u = r \<and> timestamp u = now \<and> maxForce u = maxForce d \<and>
          deadZone u = deadZone d \<and> sensorType u = sensorType d \<and>
          (active u \<longleftrightarrow> m \<ge> deadZone d) \<and>
          force u = min (if m < deadZone d then 0 else m - deadZone d) (maxForce d) \<and>
          value u = (if force u > 0 then of_int (round ((force u / maxForce d) * 1023)) else 0) \<and>
          percentage u = of_int (round ((value u / 1023) * 100)) \<and>
          fst (updateBrake now body c) = (200, BrakeUpdated (getBrakeTelemetryData u))) \<and>
      isArduinoConnected (snd (updateBrake now body c)) = isArduinoConnected c \<and>
      arduino (snd (updateBrake now body c)) = arduino c \<and>
      isSimulating (snd (updateBrake now body c)) = isSimulating c \<and>
      fullPedalData (snd (updateBrake now body c)) = fullPedalData c) \<and>
   (body_rawReading body = JNum r \<longrightarrow>
      fst (updateBrake_simulationOnly now body c) =
        (200, BrakeUpdated (getBrakeTelemetryData (updateBrakeData now (brakeData c) r))) \<and>
      brakeData (snd (updateBrake_simulationOnly now body c)) = updateBrakeData now (brakeData c) r \<and>
      (let u = brakeData (snd (updateBrake_simulationOnly now body c)); d = brakeData c;
           m = \<bar>r / 1000000\<bar>
       in rawReading u = r \<and> timestamp u = now \<and> maxForce u = maxForce d \<and>
          deadZone u = deadZone d \<and> sensorType u = sensorType d \<and>
          (active u \<longleftrightarrow> m \<ge> deadZone d) \<and>
          force u = min (if m < deadZone d then 0 else m - deadZone d) (maxForce d) \<and>
          value u = (if force u > 0 then of_int (round ((force u / maxForce d) * 1023)) else 0) \<and>
          percentage u = of_int (round ((value u / 1023) * 100)) \<and>
          fst (updateBrake_simulationOnly now body c) =
            (200, BrakeUpdated (getBrakeTelemetryData u))) \<and>
      snd (updateBrake_simulationOnly now body c)
        = c\<lparr>brakeData := brakeData (snd (updateBrake_simulationOnly now body c))\<rparr>)"
proof (intro conjI impI)
  assume "isArduinoConnected c"
  then show "snd (updateBrake now body c) = c" by (simp add: updateBrake_def)
next
  assume "isArduinoConnected c"
  then show "fst (fst (updateBrake now body c)) = 400" by (simp add: updateBrake_def)
next
  assume "isArduinoConnected c" and "\<not> notNumber (body_rawReading body)"
  then show "fst (updateBrake now body c) = (400, Failure ManualUpdateWithArduino)"
    by (simp add: updateBrake_def)
next
  assume a: "\<not> isArduinoConnected c \<and> body_rawReading body = JNum r"
  have acc: "fst (updateBrake now body c) =
           (200, BrakeUpdated (getBrakeTelemetryData (updateBrakeData now (brakeData c) r))) \<and>
         brakeData (snd (updateBrake now body c)) = updateBrakeData now (brakeData c) r"
    using a updateBrake_accepts [of c body r now] by simp
  show "fst (updateBrake now body c) =
        (200, BrakeUpdated (getBrakeTelemetryData (updateBrakeData now (brakeData c) r)))"
    using acc by simp
  show "brakeData (snd (updateBrake now body c)) = updateBrakeData now (brakeData c) r"
    using acc by simp
  show "let u = brakeData (snd (updateBrake now body c)); d = brakeData c; m = \<bar>r / 1000000\<bar>
       in rawReading u = r \<and> timestamp u = now \<and> maxForce u = maxForce d \<and>
          deadZone u = deadZone d \<and> sensorType u = sensorType d \<and>
          (active u \<longleftrightarrow> m \<ge> deadZone d) \<and>
          force u = min (if m < deadZone d then 0 else m - deadZone d) (maxForce d) \<and>
          value u = (if force u > 0 then of_int (round ((force u / maxForce d) * 1023)) else 0) \<and>
          percentage u = of_int (round ((value u / 1023) * 100)) \<and>
          fst (updateBrake now body c) = (200, BrakeUpdated (getBrakeTelemetryData u))"
    using acc updateBrakeData_recomputed [of now "brakeData c" r]
    unfolding Let_def by simp
  show "isArduinoConnected (snd (updateBrake now body c)) = isArduinoConnected c"
    using updateBrake_other_fields [of now body c] by simp
  show "arduino (snd (updateBrake now body c)) = arduino c"
    using updateBrake_other_fields [of now body c] by simp
  show "isSimulating (snd (updateBrake now body c)) = isSimulating c"
    using updateBrake_other_fields [of now body c] by simp
  show "fullPedalData (snd (updateBrake now body c)) = fullPedalData c"
    using updateBrake_other_fields [of now body c] by simp
next
  assume b: "body_rawReading body = JNum r"
  have acc: "fst (updateBrake_simulationOnly now body c) =
        (200, BrakeUpdated (getBrakeTelemetryData (updateBrakeData now (brakeData c) r))) \<and>
      brakeData (snd (updateBrake_simulationOnly now body c)) = updateBrakeData now (brakeData c) r"
    using b by (simp add: updateBrake_simulationOnly_def Let_def)
  show "fst (updateBrake_simulationOnly now body c) =
        (200, BrakeUpdated (getBrakeTelemetryData (updateBrakeData now (brakeData c) r)))"
    using acc by simp
  show "brakeData (snd (updateBrake_simulationOnly now body c)) = updateBrakeData now (brakeData c) r"
    using acc by simp
  show "let u = brakeData (snd (updateBrake_simulationOnly now body c)); d = brakeData c;
           m = \<bar>r / 1000000\<bar>
       in rawReading u = r \<and> timestamp u = now \<and> maxForce u = maxForce d \<and>
          deadZone u = deadZone d \<and> sensorType u = sensorType d \<and>
          (active u \<longleftrightarrow> m \<ge> deadZone d) \<and>
          force u = min (if m < deadZone d then 0 else m - deadZone d) (maxForce d) \<and>
          value u = (if force u > 0 then of_int (round ((force u / maxForce d) * 1023)) else 0) \<and>
          percentage u = of_int (round ((value u / 1023) * 100)) \<and>
          fst (updateBrake_simulationOnly now body c) =
            (200, BrakeUpdated (getBrakeTelemetryData u))"
    using acc updateBrakeData_recomputed [of now "brakeData c" r]
    unfolding Let_def by simp
  show "snd (updateBrake_simulationOnly now body c)
        = c\<lparr>brakeData := brakeData (snd (updateBrake_simulationOnly now body c))\<rparr>"
    using b by (simp add: updateBrake_simulationOnly_def Let_def)
qed

theorem updateBrake_conflict_witness:
  "isArduinoConnected hardwareController \<and> isPortConnected (arduino hardwareController) \<and>
   \<not> notNumber (JNum 3000000) \<and>
   updateBrake 1 \<lparr>body_rawReading = JNum 3000000, body_maxForce = JUndefined,
                  body_deadZone = JUndefined\<rparr> hardwareController
     = ((400, Failure ManualUpdateWithArduino), hardwareController) \<and>
   \<not> isArduinoConnected (newController 0) \<and>
   rawReading (brakeData (snd (updateBrake 1 \<lparr>body_rawReading = JNum 3000000,
       body_maxForce = JUndefined, body_deadZone = JUndefined\<rparr> (newController 0)))) = 3000000 \<and>
   active (brakeData (snd (updateBrake 1 \<lparr>body_rawReading = JNum 3000000,
       body_maxForce = JUndefined, body_deadZone = JUndefined\<rparr> (newController 0)))) \<and>
   force (brakeData (snd (updateBrake 1 \<lparr>body_rawReading = JNum 3000000,
       body_maxForce = JUndefined, body_deadZone = JUndefined\<rparr> (newController 0)))) = 2 \<and>
   value (brakeData (snd (updateBrake 1 \<lparr>body_rawReading = JNum 3000000,
       body_maxForce = JUndefined, body_deadZone = JUndefined\<rparr> (newController 0)))) = 409 \<and>
   percentage (brakeData (snd (updateBrake 1 \<lparr>body_rawReading = JNum 3000000,
       body_maxForce = JUndefined, body_deadZone = JUndefined\<rparr> (newController 0)))) = 40 \<and>
   timestamp (brakeData (snd (updateBrake 1 \<lparr>body_rawReading = JNum 3000000,
       body_maxForce = JUndefined, body_deadZone = JUndefined\<rparr> (newController 0)))) = 1"
proof -
  let ?body = "\<lparr>body_rawReading = JNum 3000000, body_maxForce = JUndefined,
                  body_deadZone = JUndefined\<rparr>"
  let ?u = "brakeData (snd (updateBrake 1 ?body (newController 0)))"
  have h1: "isArduinoConnected hardwareController \<and> isPortConnected (arduino hardwareController)"
    by (simp add: hardwareController_def isPortConnected_def portIsOpen_def)
  have h2: "\<not> notNumber (body_rawReading ?body)" by simp
  have h3: "\<not> isArduinoConnected (newController 0) \<and> body_rawReading ?body = JNum 3000000"
    by (simp add: newController_def)
  have cfg: "maxForce (brakeData (newController 0)) = 5 \<and> deadZone (brakeData (newController 0)) = 1"
    by (simp add: newController_def createBrakeData_def schemaDefaults_def)
  have a: "snd (updateBrake 1 ?body hardwareController) = hardwareController \<and>
           fst (updateBrake 1 ?body hardwareController) = (400, Failure ManualUpdateWithArduino)"
    using h1 h2 updateBrake_conflict [of hardwareController 1 ?body 3000000] by blast
  have e: "updateBrake 1 ?body hardwareController
             = ((400, Failure ManualUpdateWithArduino), hardwareController)"
    using a by (simp add: prod_eq_iff)
  have b: "rawReading ?u = 3000000 \<and> timestamp ?u = 1 \<and>
           (active ?u \<longleftrightarrow> \<bar>3000000 / 1000000 :: real\<bar> \<ge> deadZone (brakeData (newController 0))) \<and>
           force ?u = min (if \<bar>3000000 / 1000000 :: real\<bar> < deadZone (brakeData (newController 0)) then 0
                           else \<bar>3000000 / 1000000\<bar> - deadZone (brakeData (newController 0)))
                          (maxForce (brakeData (newController 0))) \<and>
           value ?u = (if force ?u > 0
                       then of_int (round ((force ?u / maxForce (brakeData (newController 0))) * 1023))
                       else 0) \<and>
           percentage ?u = of_int (round ((value ?u / 1023) * 100))"
    using h3 updateBrake_conflict [of "newController 0" 1 ?body 3000000]
    unfolding Let_def by blast
  have f: "force ?u = 2" using b cfg by simp
  have v: "value ?u = 409" using b f cfg by (simp add: round_def)
  have p: "percentage ?u = 40" using b v by (simp add: round_def)
  have ac: "active ?u" using b cfg by simp
  show ?thesis using h1 h3 e b f v p ac by simp
qed

section \<open>Properties of the configuration route\<close>

text \<open>
  C3. Configure validates \<open>maxForce\<close> against \<open>(0, 50]\<close>: a request with
  \<open>maxForce = 60\<close> is rejected and the calibration stays as it was. The bound is in
  \<open>validateConfigParams\<close>, which rejects the request when it is asked, but the router
  reaches it only after \<open>configureBrake\<close>, which checks \<open>maxForce > 0\<close> alone, has
  answered: \<open>PUT /config\<close> with \<open>maxForce = 60\<close> is answered with status 200 and stores
  60.
\<close>

theorem configure_maxForce_60_accepted:
  "validateConfigParams \<lparr>body_rawReading = JUndefined, body_maxForce = JNum 60,
       body_deadZone = JUndefined\<rparr> = Answered (400, Failure MaxForceOutOfRange) \<and>
   route brakeRoutes PUT ''/config'' 1
     \<lparr>body_rawReading = JUndefined, body_maxForce = JNum 60, body_deadZone = JUndefined\<rparr>
     (newController 0)
   = (Some (200, ConfigurationUpdated 60 1),
      (newController 0)\<lparr>brakeData := (brakeData (newController 0))\<lparr>maxForce := 60, timestamp := 1\<rparr>\<rparr>)"
  by (simp add: validateConfigParams_def brakeRoutes_def configureBrake_def newController_def
      createBrakeData_def schemaDefaults_def Let_def)

text \<open>
  C4. When configure reports a validation error, nothing has been changed. In
  \<open>configureBrake\<close> the new \<open>maxForce\<close> is stored before \<open>deadZone\<close> is looked at:
  \<open>PUT /config\<close> with \<open>maxForce = 10\<close> and \<open>deadZone = -1\<close> is answered with status 400
  and leaves \<open>maxForce = 10\<close> where 5 was.
\<close>

theorem configure_partial_update_on_error:
  "route brakeRoutes PUT ''/config'' 1
     \<lparr>body_rawReading = JUndefined, body_maxForce = JNum 10, body_deadZone = JNum (- 1)\<rparr>
     (newController 0)
   = (Some (400, Failure DeadZoneNegative),
      (newController 0)\<lparr>brakeData := (brakeData (newController 0))\<lparr>maxForce := 10\<rparr>\<rparr>) \<and>
   maxForce (brakeData (newController 0)) = 5"
  by (simp add: brakeRoutes_def configureBrake_def newController_def
      createBrakeData_def schemaDefaults_def Let_def)

section \<open>Properties of the serial connection\<close>

text \<open>
  The line of the protocol's example parses: the brake has value 512, percentage 50 and
  is active, the status is \<open>FRENANDO\<close>, and the data go to the callback.
\<close>

lemma parseArduinoData_sample:
  "parseArduinoData 1 2
     (units ''Acel: 0/1023 (0%) | Freno: 512/1023 (50%) | Clutch: 0/1023 (0%) | FRENANDO'')
     (onDataReceived (newConnection 0))
   = ((onDataReceived (newConnection 0))\<lparr>currentData :=
        \<lparr>throttle = \<lparr>ch_value = 0, ch_percentage = 0, ch_active = False\<rparr>,
         brake = \<lparr>ch_value = 512, ch_percentage = 50, ch_active = True\<rparr>,
         clutch = \<lparr>ch_value = 0, ch_percentage = 0, ch_active = False\<rparr>,
         status = units ''FRENANDO'', pd_timestamp = 1,
         rawData = Some (units ''Acel: 0/1023 (0%) | Freno: 512/1023 (50%) | Clutch: 0/1023 (0%) | FRENANDO'')\<rparr>\<rparr>,
      Some \<lparr>throttle = \<lparr>ch_value = 0, ch_percentage = 0, ch_active = False\<rparr>,
         brake = \<lparr>ch_value = 512, ch_percentage = 50, ch_active = True\<rparr>,
         clutch = \<lparr>ch_value = 0, ch_percentage = 0, ch_active = False\<rparr>,
         status = units ''FRENANDO'', pd_timestamp = 1,
         rawData = Some (units ''Acel: 0/1023 (0%) | Freno: 512/1023 (50%) | Clutch: 0/1023 (0%) | FRENANDO'')\<rparr>)"
  by (simp add: parseArduinoData_def units_def matchPedalHere_def isDigit_def isSpace_def
      statusTokens_def mkPedal_def parseInt_def displayPedalDataThrows_def createBarThrows_def
      onDataReceived_def newConnection_def round_def Let_def)

text \<open>
  C8. A line on which any of the four patterns (throttle, brake, clutch, status at the
  end) does not match leaves the connection as it was, \<open>currentData\<close> included, and the
  data callback is not called; the controller that receives such a line stays as it was.
  A line without the status token is one.
\<close>

theorem parseArduinoData_discards:
  "(matchPedal (units ''Acel:'') raw = None \<or> matchPedal (units ''Freno:'') raw = None \<or>
    matchPedal (units ''Clutch:'') raw = None \<or> matchStatus raw = None \<longrightarrow>
      parseArduinoData tParse tDisplay raw a = (a, None)) \<and>
   (matchPedal (units ''Acel:'') (trim received) = None \<or>
    matchPedal (units ''Freno:'') (trim received) = None \<or>
    matchPedal (units ''Clutch:'') (trim received) = None \<or>
    matchStatus (trim received) = None \<longrightarrow>
      receiveLine tParse tDisplay t1 t2 received c = c)"
  by (auto simp add: parseArduinoData_def receiveLine_def split: option.splits)

theorem parseArduinoData_discards_witness:
  "matchStatus (units ''Acel: 0/1023 (0%) | Freno: 512/1023 (50%) | Clutch: 0/1023 (0%) |'') = None \<and>
   parseArduinoData 1 2
     (units ''Acel: 0/1023 (0%) | Freno: 512/1023 (50%) | Clutch: 0/1023 (0%) |'')
     (onDataReceived (newConnection 0)) = (onDataReceived (newConnection 0), None) \<and>
   matchStatus (trim (units ''Acel: 0/1023 (0%) | Freno: 512/1023 (50%) | Clutch: 0/1023 (0%) | '')) = None \<and>
   receiveLine 1 2 3 4
     (units ''Acel: 0/1023 (0%) | Freno: 512/1023 (50%) | Clutch: 0/1023 (0%) | '')
     (newController 0) = newController 0"
proof -
  let ?raw = "units ''Acel: 0/1023 (0%) | Freno: 512/1023 (50%) | Clutch: 0/1023 (0%) |''"
  let ?received = "units ''Acel: 0/1023 (0%) | Freno: 512/1023 (50%) | Clutch: 0/1023 (0%) | ''"
  have h1: "matchStatus ?raw = None"
    by (simp add: units_def statusTokens_def)
  have h2: "matchStatus (trim ?received) = None"
    by (simp add: units_def statusTokens_def trim_def isSpace_def)
  have a: "parseArduinoData 1 2 ?raw (onDataReceived (newConnection 0))
             = (onDataReceived (newConnection 0), None)"
    using h1 parseArduinoData_discards [of ?raw 1 2 "onDataReceived (newConnection 0)"] by blast
  have b: "receiveLine 1 2 3 4 ?received (newController 0) = newController 0"
    using h2 parseArduinoData_discards [where received = ?received and tParse = 1 and tDisplay = 2
        and ?t1.0 = 3 and ?t2.0 = 4 and c = "newController 0"] by blast
  show ?thesis using h1 h2 a b by blast
qed

section \<open>Properties of reconnection and disconnect\<close>

lemmas lifecycle_defs = run_def connectToPort_def connect_def onOpen_def onError_def onClose_def
  disconnect_def retryFires_def attemptReconnection_def falsy_def isPortConnected_def portIsOpen_def
  newConnection_def connectedWorld_def userPicksCOM4_def Let_def

lemma trace_until_connected:
  "run connectedWorld [PortError, ConnectToPort ''COM4'' 9600 userPicksCOM4, PortOpen] =
     \<lparr>conn = (newConnection 0)\<lparr>port := Some \<lparr>path = ''COM4'', baudRate = 9600, isOpen = True\<rparr>,
                                  isConnected := True\<rparr>,
      pendingRetries = 1\<rparr>"
  by (simp add: lifecycle_defs)

text \<open>
  C9. After \<open>disconnect()\<close>, no retry scheduled before it reopens the port. The code
  keeps no handle on its timers and \<open>disconnect\<close> cancels none. In the trace below the
  port reports an error (one retry is scheduled), the connection is made again on \<open>COM4\<close>
  through \<open>connectToPort\<close> and is up with that retry still pending; \<open>disconnect()\<close>
  closes the port and the retry stays; the port's \<open>close\<close> arrives; the retry fires,
  finds \<open>isConnected\<close> false, asks for a port and opens \<open>COM4\<close> again.
\<close>

theorem disconnect_retry_counterexample:
  "pendingRetries (run connectedWorld
      [PortError, ConnectToPort ''COM4'' 9600 userPicksCOM4, PortOpen]) = 1 \<and>
   isPortConnected (conn (run connectedWorld
      [PortError, ConnectToPort ''COM4'' 9600 userPicksCOM4, PortOpen])) \<and>
   pendingRetries (run connectedWorld
      [PortError, ConnectToPort ''COM4'' 9600 userPicksCOM4, PortOpen, Disconnect]) = 1 \<and>
   \<not> portIsOpen (conn (run connectedWorld
      [PortError, ConnectToPort ''COM4'' 9600 userPicksCOM4, PortOpen, Disconnect, PortClose])) \<and>
   port (conn (run connectedWorld
      [PortError, ConnectToPort ''COM4'' 9600 userPicksCOM4, PortOpen, Disconnect, PortClose,
       RetryFires userPicksCOM4]))
     = Some \<lparr>path = ''COM4'', baudRate = 9600, isOpen = False\<rparr> \<and>
   isPortConnected (conn (run connectedWorld
      [PortError, ConnectToPort ''COM4'' 9600 userPicksCOM4, PortOpen, Disconnect, PortClose,
       RetryFires userPicksCOM4, PortOpen]))"
  by (simp add: lifecycle_defs)

text \<open>
  C9, as the code has it. \<open>disconnect()\<close> closes the port and clears \<open>isConnected\<close>,
  and leaves the scheduled retries scheduled. A retry that fires while \<open>isConnected\<close> is
  true does nothing; one that fires while it is false, as it is after a disconnect, calls
  \<open>connect()\<close>, which makes a new port for the path that is selected. Disconnect is
  idempotent: a second disconnect changes nothing, and a disconnect while not connected
  and with no open port leaves the state as it was; the method reports no error.
\<close>

theorem disconnect_keeps_retries:
  "pendingRetries (disconnect w) = pendingRetries w \<and>
   \<not> isConnected (conn (disconnect w)) \<and> \<not> portIsOpen (conn (disconnect w)) \<and>
   disconnect (disconnect w) = disconnect w \<and>
   (\<not> isConnected (conn w) \<and> \<not> portIsOpen (conn w) \<longrightarrow> disconnect w = w) \<and>
   (0 < pendingRetries w \<and> isConnected (conn w) \<longrightarrow>
      retryFires env w = w\<lparr>pendingRetries := pendingRetries w - 1\<rparr>) \<and>
   (0 < pendingRetries w \<and> \<not> isConnected (conn w) \<and> selection env = Some p \<and> p \<noteq> [] \<and>
    p \<noteq> ''SIMULATION_MODE'' \<and> \<not> constructorThrows env \<longrightarrow>
      port (conn (retryFires env w)) = Some \<lparr>path = p, baudRate = 9600, isOpen = False\<rparr>)"
proof (intro conjI impI)
  show "pendingRetries (disconnect w) = pendingRetries w"
    by (simp add: disconnect_def Let_def)
  show "\<not> isConnected (conn (disconnect w))"
    by (simp add: disconnect_def Let_def)
  show "\<not> portIsOpen (conn (disconnect w))"
    by (cases "port (conn w)") (simp_all add: disconnect_def Let_def portIsOpen_def)
  show "disconnect (disconnect w) = disconnect w"
    by (cases "port (conn w)") (simp_all add: disconnect_def Let_def portIsOpen_def)
next
  assume "\<not> isConnected (conn w) \<and> \<not> portIsOpen (conn w)"
  then show "disconnect w = w" by (simp add: disconnect_def Let_def)
next
  assume "0 < pendingRetries w \<and> isConnected (conn w)"
  then show "retryFires env w = w\<lparr>pendingRetries := pendingRetries w - 1\<rparr>"
    by (simp add: retryFires_def connect_def)
next
  assume "0 < pendingRetries w \<and> \<not> isConnected (conn w) \<and> selection env = Some p \<and> p \<noteq> [] \<and>
    p \<noteq> ''SIMULATION_MODE'' \<and> \<not> constructorThrows env"
  then show "port (conn (retryFires env w)) = Some \<lparr>path = p, baudRate = 9600, isOpen = False\<rparr>"
    by (simp add: retryFires_def connect_def falsy_def)
qed

theorem disconnect_keeps_retries_witness:
  "\<not> isConnected (conn \<lparr>conn = newConnection 0, pendingRetries = 0\<rparr>) \<and>
   \<not> portIsOpen (conn \<lparr>conn = newConnection 0, pendingRetries = 0\<rparr>) \<and>
   disconnect \<lparr>conn = newConnection 0, pendingRetries = 0\<rparr>
     = \<lparr>conn = newConnection 0, pendingRetries = 0\<rparr> \<and>
   0 < pendingRetries (connectedWorld\<lparr>pendingRetries := 1\<rparr>) \<and>
   isConnected (conn (connectedWorld\<lparr>pendingRetries := 1\<rparr>)) \<and>
   retryFires userPicksCOM4 (connectedWorld\<lparr>pendingRetries := 1\<rparr>) = connectedWorld \<and>
   0 < pendingRetries (disconnect (connectedWorld\<lparr>pendingRetries := 1\<rparr>)) \<and>
   \<not> isConnected (conn (disconnect (connectedWorld\<lparr>pendingRetries := 1\<rparr>))) \<and>
   selection userPicksCOM4 = Some ''COM4'' \<and> \<not> constructorThrows userPicksCOM4 \<and>
   port (conn (retryFires userPicksCOM4 (disconnect (connectedWorld\<lparr>pendingRetries := 1\<rparr>))))
     = Some \<lparr>path = ''COM4'', baudRate = 9600, isOpen = False\<rparr>"
proof -
  let ?idle = "\<lparr>conn = newConnection 0, pendingRetries = 0\<rparr>"
  let ?up = "connectedWorld\<lparr>pendingRetries := 1\<rparr>"
  have h1: "\<not> isConnected (conn ?idle) \<and> \<not> portIsOpen (conn ?idle)"
    by (simp add: newConnection_def portIsOpen_def)
  have h2: "0 < pendingRetries ?up \<and> isConnected (conn ?up)"
    by (simp add: connectedWorld_def)
  have h3: "0 < pendingRetries (disconnect ?up) \<and> \<not> isConnected (conn (disconnect ?up)) \<and>
            selection userPicksCOM4 = Some ''COM4'' \<and> ''COM4'' \<noteq> [] \<and>
            ''COM4'' \<noteq> ''SIMULATION_MODE'' \<and> \<not> constructorThrows userPicksCOM4"
    by (simp add: lifecycle_defs)
  have a: "disconnect ?idle = ?idle"
    using h1 disconnect_keeps_retries [of ?idle] by blast
  have b: "retryFires userPicksCOM4 ?up = ?up\<lparr>pendingRetries := pendingRetries ?up - 1\<rparr>"
    using h2 disconnect_keeps_retries [of ?up userPicksCOM4] by blast
  have b': "?up\<lparr>pendingRetries := pendingRetries ?up - 1\<rparr> = connectedWorld"
    by (simp add: connectedWorld_def)
  have c: "port (conn (retryFires userPicksCOM4 (disconnect ?up)))
             = Some \<lparr>path = ''COM4'', baudRate = 9600, isOpen = False\<rparr>"
    using h3 disconnect_keeps_retries [of "disconnect ?up" userPicksCOM4 "''COM4''"] by blast
  show ?thesis using h1 h2 h3 a b b' c by simp
qed

end
